theory Spec2Isabelle
  imports Complex_Main "HOL-Library.Word"
begin

section \<open>Timing templates of mod\_ringback\<close>

text \<open>
  The timing rules of \<^verbatim>\<open>mod_ringback.c\<close> (milliseconds). The macros are integer
  literals that are only ever compared with \<^verbatim>\<open>uint32_t\<close> durations, so they are
  32-bit words here and \<open>\<le>\<close> is the unsigned order of C.
\<close>

type_synonym uint32_t = "32 word"

definition BUSY_ON_MIN :: uint32_t where "BUSY_ON_MIN = 250"
definition BUSY_ON_MAX :: uint32_t where "BUSY_ON_MAX = 450"
definition BUSY_OFF_MIN :: uint32_t where "BUSY_OFF_MIN = 250"
definition BUSY_OFF_MAX :: uint32_t where "BUSY_OFF_MAX = 450"

definition RINGBACK_ON_MIN :: uint32_t where "RINGBACK_ON_MIN = 900"
definition RINGBACK_ON_MAX :: uint32_t where "RINGBACK_ON_MAX = 1200"
definition RINGBACK_OFF_MIN :: uint32_t where "RINGBACK_OFF_MIN = 3000"
definition RINGBACK_OFF_MAX :: uint32_t where "RINGBACK_OFF_MAX = 5000"

definition CONGESTION_ON_MIN :: uint32_t where "CONGESTION_ON_MIN = 600"
definition CONGESTION_ON_MAX :: uint32_t where "CONGESTION_ON_MAX = 800"
definition CONGESTION_OFF_MIN :: uint32_t where "CONGESTION_OFF_MIN = 500"
definition CONGESTION_OFF_MAX :: uint32_t where "CONGESTION_OFF_MAX = 900"

text \<open>
  The three match predicates. C returns the \<^verbatim>\<open>int\<close> 1 or 0 of the \<^verbatim>\<open>&&\<close> chain; the
  model returns the truth value.
\<close>

definition match_busy_pattern :: "uint32_t \<Rightarrow> uint32_t \<Rightarrow> bool" where
  "match_busy_pattern on_ms off_ms =
     (on_ms \<ge> BUSY_ON_MIN \<and> on_ms \<le> BUSY_ON_MAX \<and>
      off_ms \<ge> BUSY_OFF_MIN \<and> off_ms \<le> BUSY_OFF_MAX)"

definition match_ringback_pattern :: "uint32_t \<Rightarrow> uint32_t \<Rightarrow> bool" where
  "match_ringback_pattern on_ms off_ms =
     (on_ms \<ge> RINGBACK_ON_MIN \<and> on_ms \<le> RINGBACK_ON_MAX \<and>
      off_ms \<ge> RINGBACK_OFF_MIN \<and> off_ms \<le> RINGBACK_OFF_MAX)"

definition match_congestion_pattern :: "uint32_t \<Rightarrow> uint32_t \<Rightarrow> bool" where
  "match_congestion_pattern on_ms off_ms =
     (on_ms \<ge> CONGESTION_ON_MIN \<and> on_ms \<le> CONGESTION_ON_MAX \<and>
      off_ms \<ge> CONGESTION_OFF_MIN \<and> off_ms \<le> CONGESTION_OFF_MAX)"

section \<open>Constants and data of the detector\<close>

text \<open>
  Tone types (\<^verbatim>\<open>RINGBACK_TONE_*\<close>), the sample rate, the Goertzel parameters and the
  energy threshold. \<^verbatim>\<open>int\<close> is modelled by \<open>int\<close>, \<^verbatim>\<open>uint32_t\<close> by a 32-bit word,
  \<^verbatim>\<open>int16_t\<close> by a 16-bit word read with \<open>sint\<close>, and \<^verbatim>\<open>double\<close> by \<open>real\<close>
  (rounding of the floating-point operations is not modelled).
\<close>

type_synonym int16_t = "16 word"

definition RINGBACK_TONE_BUSY :: int where "RINGBACK_TONE_BUSY = 1"
definition RINGBACK_TONE_RINGBACK :: int where "RINGBACK_TONE_RINGBACK = 2"
definition RINGBACK_TONE_COLORRINGBACK :: int where "RINGBACK_TONE_COLORRINGBACK = 4"
definition RINGBACK_TONE_SILENCE :: int where "RINGBACK_TONE_SILENCE = 32"
definition RINGBACK_TONE_450HZ :: int where "RINGBACK_TONE_450HZ = 64"

definition SAMPLE_RATE :: int where "SAMPLE_RATE = 8000"
definition TARGET_FREQ :: real where "TARGET_FREQ = 450"
definition GOERTZEL_N :: int where "GOERTZEL_N = 205"
definition ENERGY_THRESHOLD :: int where "ENERGY_THRESHOLD = 500"

text \<open>
  \<^verbatim>\<open>ringback_state_t\<close>. The three pointer fields (\<^verbatim>\<open>session\<close>, \<^verbatim>\<open>bug\<close>, \<^verbatim>\<open>stoptone\<close>) are
  handles of the host that the callback never inspects; they are left out.
\<close>

record ringback_state =
  running :: int
  sample_count :: int
  goertzel_s1 :: real
  goertzel_s2 :: real
  goertzel_coef :: real
  in_tone :: int
  tone_start_ms :: uint32_t
  silence_start_ms :: uint32_t
  last_tone_duration_ms :: uint32_t
  last_silence_duration_ms :: uint32_t
  tone_type :: int
  consecutive_busy :: int
  consecutive_ringback :: int
  start_time_ms :: uint32_t
  max_detect_time_ms :: uint32_t
  autohangup :: int
  hangup_on_busy :: int
  hangup_on_ringback :: int

text \<open>
  The part of \<^verbatim>\<open>switch_frame_t\<close> that the callback reads: the buffer seen as an array of
  16-bit samples (\<open>None\<close> is the null pointer) and its length in bytes.
\<close>

record switch_frame =
  data :: "int16_t list option"
  datalen :: uint32_t

text \<open>
  What the callback asks of the host: setting a channel variable and hanging up the
  channel. A call of the callback returns the list of the requests it made, in order.
\<close>

datatype switch_call_cause = SWITCH_CAUSE_USER_BUSY

datatype host_call =
  Set_variable string string
| Hangup switch_call_cause

abbreviation SWITCH_TRUE :: bool where "SWITCH_TRUE \<equiv> True"
abbreviation SWITCH_FALSE :: bool where "SWITCH_FALSE \<equiv> False"

section \<open>Goertzel filter and frame energy\<close>

text \<open>
  \<^verbatim>\<open>init_goertzel\<close> fills the process-wide \<^verbatim>\<open>goertzel_coefficient\<close> when it is still 0.
  The global is passed in and the new value is returned.
\<close>

definition init_goertzel :: "real \<Rightarrow> real" where
  "init_goertzel goertzel_coefficient =
     (if goertzel_coefficient = 0 then
        (let k = real_of_int GOERTZEL_N * TARGET_FREQ / real_of_int SAMPLE_RATE
         in 2.0 * cos (2.0 * pi * k / real_of_int GOERTZEL_N))
      else goertzel_coefficient)"

definition goertzel_process_sample :: "ringback_state \<Rightarrow> int16_t \<Rightarrow> ringback_state" where
  "goertzel_process_sample state sample =
     (let s0 = real_of_int (sint sample) + goertzel_coef state * goertzel_s1 state
                 - goertzel_s2 state
      in state\<lparr>goertzel_s2 := goertzel_s1 state, goertzel_s1 := s0,
               sample_count := sample_count state + 1\<rparr>)"

definition goertzel_get_energy :: "ringback_state \<Rightarrow> real" where
  "goertzel_get_energy state =
     (let power = goertzel_s1 state * goertzel_s1 state + goertzel_s2 state * goertzel_s2 state
                    - goertzel_coef state * goertzel_s1 state * goertzel_s2 state
      in power / real_of_int (GOERTZEL_N * GOERTZEL_N))"

text \<open>The summation loop of \<^verbatim>\<open>calc_frame_energy\<close>, with the running \<^verbatim>\<open>sum\<close> as accumulator \<open>acc\<close>.\<close>

fun energy_loop :: "int16_t list \<Rightarrow> real \<Rightarrow> real" where
  "energy_loop [] acc = acc"
| "energy_loop (x # xs) acc =
     energy_loop xs (acc + real_of_int (sint x) * real_of_int (sint x))"

text \<open>
  \<^verbatim>\<open>calc_frame_energy(samples, count)\<close> reads the first \<open>count\<close> samples. The callback
  calls it with \<open>count > 0\<close> only.
\<close>

definition calc_frame_energy :: "int16_t list \<Rightarrow> int \<Rightarrow> real" where
  "calc_frame_energy samples count =
     sqrt (energy_loop (take (nat count) samples) 0 / real_of_int count)"

text \<open>
  The \<^verbatim>\<open>for\<close> loop of the callback over the samples of the frame: every sample is fed
  to the filter; when the window of \<open>GOERTZEL_N\<close> samples is full the energy is read,
  the filter is reset and the loop is left (\<^verbatim>\<open>break\<close>), so the rest of the frame is
  not fed. The result is the state and the local \<^verbatim>\<open>goertzel_energy\<close>, which stays 0
  when the window did not fill up.
\<close>

fun goertzel_loop :: "ringback_state \<Rightarrow> int16_t list \<Rightarrow> ringback_state \<times> real" where
  "goertzel_loop state [] = (state, 0)"
| "goertzel_loop state (x # xs) =
     (let state = goertzel_process_sample state x in
      if sample_count state \<ge> GOERTZEL_N then
        (state\<lparr>goertzel_s1 := 0, goertzel_s2 := 0, sample_count := 0\<rparr>,
         goertzel_get_energy state)
      else goertzel_loop state xs)"

text \<open>
  Lines 192 to 200 of the callback: the local \<^verbatim>\<open>has_tone\<close> is first computed from the
  frame energy and the Goertzel energy, possibly widened after a second reading of the
  filter in the middle of a window, and then assigned again from the frame energy alone
  (the comment there reads "simplified: decide by energy"). \<open>state\<close> is the state after
  the loop.
\<close>

definition tone_decision :: "real \<Rightarrow> real \<Rightarrow> ringback_state \<Rightarrow> bool" where
  "tone_decision energy goertzel_energy state =
     (let has_tone = (energy > real_of_int ENERGY_THRESHOLD \<and>
                      (goertzel_energy > 1000 \<or> sample_count state > 0));
          (goertzel_energy, has_tone) =
            (if sample_count state \<ge> GOERTZEL_N div 2 then
               (let goertzel_energy = goertzel_get_energy state
                in (goertzel_energy, has_tone \<or> goertzel_energy > 1000))
             else (goertzel_energy, has_tone));
          has_tone = (energy > real_of_int ENERGY_THRESHOLD)
      in has_tone)"

section \<open>Reporting the result\<close>

text \<open>
  \<^verbatim>\<open>set_ringback_result\<close> writes three channel variables from \<^verbatim>\<open>tone_type\<close>. The channel
  of a live session is never null, so the guard \<^verbatim>\<open>if (channel)\<close> is taken.
\<close>

definition set_ringback_result :: "ringback_state \<Rightarrow> host_call list" where
  "set_ringback_result state =
     [Set_variable ''ringback_finish_cause''
        (if tone_type state = RINGBACK_TONE_BUSY then ''busy''
         else if tone_type state = RINGBACK_TONE_RINGBACK then ''ringback'' else ''timeout''),
      Set_variable ''ringback_tone''
        (if tone_type state = RINGBACK_TONE_BUSY then ''busy''
         else if tone_type state = RINGBACK_TONE_RINGBACK then ''ringback'' else ''unknown''),
      Set_variable ''ringback_result''
        (if tone_type state = RINGBACK_TONE_BUSY then ''busy''
         else if tone_type state = RINGBACK_TONE_RINGBACK then ''ringback'' else ''unknown'')]"

text \<open>The value of a channel variable after a list of requests: the last one written.\<close>

fun channel_variable :: "string \<Rightarrow> host_call list \<Rightarrow> string option" where
  "channel_variable name [] = None"
| "channel_variable name (Set_variable n v # calls) =
     (case channel_variable name calls of
        Some w \<Rightarrow> Some w
      | None \<Rightarrow> if n = name then Some v else None)"
| "channel_variable name (Hangup c # calls) = channel_variable name calls"

section \<open>The media callback\<close>

text \<open>
  Lines 204 to 248: the on/off tracker and the pattern matching on a falling edge. Both
  match predicates are called with the literal 0 as off-duration, as the source does.
  The result is the state, the requests to the host and the value returned by the
  callback.
\<close>

definition segment_update ::
  "ringback_state \<Rightarrow> bool \<Rightarrow> uint32_t \<Rightarrow> ringback_state \<times> host_call list \<times> bool" where
  "segment_update state has_tone now_ms =
     (if has_tone then
        (if in_tone state = 0 then
           (let state = state\<lparr>in_tone := 1\<rparr>;
                state = (if silence_start_ms state > 0
                         then state\<lparr>last_silence_duration_ms := now_ms - silence_start_ms state\<rparr>
                         else state);
                state = state\<lparr>tone_start_ms := now_ms\<rparr>
            in (state, [], SWITCH_TRUE))
         else (state, [], SWITCH_TRUE))
      else
        (if in_tone state \<noteq> 0 then
           (let state = state\<lparr>in_tone := 0\<rparr>;
                state = state\<lparr>last_tone_duration_ms := now_ms - tone_start_ms state\<rparr>;
                state = state\<lparr>silence_start_ms := now_ms\<rparr>
            in
              if match_busy_pattern (last_tone_duration_ms state) 0 then
                (let state = state\<lparr>consecutive_busy := consecutive_busy state + 1\<rparr>;
                     state = state\<lparr>consecutive_ringback := 0\<rparr>
                 in
                   if consecutive_busy state \<ge> 2 then
                     (let state = state\<lparr>tone_type := RINGBACK_TONE_BUSY\<rparr>;
                          state = state\<lparr>running := 0\<rparr>
                      in (state,
                          set_ringback_result state @
                            (if hangup_on_busy state \<noteq> 0 then [Hangup SWITCH_CAUSE_USER_BUSY]
                             else []),
                          SWITCH_FALSE))
                   else (state, [], SWITCH_TRUE))
              else if match_ringback_pattern (last_tone_duration_ms state) 0 then
                (let state = state\<lparr>consecutive_ringback := consecutive_ringback state + 1\<rparr>;
                     state = state\<lparr>consecutive_busy := 0\<rparr>;
                     state = (if consecutive_ringback state \<ge> 1
                              then state\<lparr>tone_type := RINGBACK_TONE_RINGBACK\<rparr> else state)
                 in (state, [], SWITCH_TRUE))
              else
                (let state = state\<lparr>consecutive_busy := 0\<rparr>;
                     state = state\<lparr>consecutive_ringback := 0\<rparr>
                 in (state, [], SWITCH_TRUE)))
         else if silence_start_ms state = 0 then
           (state\<lparr>silence_start_ms := now_ms\<rparr>, [], SWITCH_TRUE)
         else (state, [], SWITCH_TRUE)))"

text \<open>
  Division of C on \<^verbatim>\<open>int64_t\<close> by a positive constant: it truncates towards zero.
\<close>

definition c_div :: "int \<Rightarrow> int \<Rightarrow> int" where
  "c_div a b = (if a < 0 then - ((- a) div b) else a div b)"

text \<open>
  \<^verbatim>\<open>now_ms = switch_micro_time_now() / 1000 - state->start_time_ms\<close>: the clock is a
  64-bit count of microseconds, the difference is taken in 64 bits and stored in a
  \<^verbatim>\<open>uint32_t\<close>.
\<close>

definition elapsed_ms :: "int \<Rightarrow> ringback_state \<Rightarrow> uint32_t" where
  "elapsed_ms micro_time_now state =
     word_of_int (c_div micro_time_now 1000 - uint (start_time_ms state))"

text \<open>
  \<^verbatim>\<open>ringback_media_callback\<close>. Arguments: the global \<^verbatim>\<open>goertzel_coefficient\<close>, the
  \<^verbatim>\<open>user_data\<close> pointer (\<open>None\<close> when null), the frame, and the value that
  \<^verbatim>\<open>switch_micro_time_now()\<close> returns during the call. Result: the global, the state, the
  requests made to the host and the returned \<^verbatim>\<open>switch_bool_t\<close>. The result is \<open>None\<close>
  when the frame announces more samples than its buffer holds, where the C code reads
  past the buffer. The local \<^verbatim>\<open>frame_duration_ms\<close> is computed and never used; it is
  left out. The frame pointer itself is taken to be valid.
\<close>

definition ringback_media_callback ::
  "real \<Rightarrow> ringback_state option \<Rightarrow> switch_frame \<Rightarrow> int \<Rightarrow>
   (real \<times> ringback_state option \<times> host_call list \<times> bool) option" where
  "ringback_media_callback goertzel_coefficient user_data frame micro_time_now =
     (case user_data of
        None \<Rightarrow> Some (goertzel_coefficient, None, [], SWITCH_TRUE)
      | Some state \<Rightarrow>
          if running state = 0 then Some (goertzel_coefficient, Some state, [], SWITCH_TRUE)
          else
            (case data frame of
               None \<Rightarrow> Some (goertzel_coefficient, Some state, [], SWITCH_TRUE)
             | Some buffer \<Rightarrow>
                 if datalen frame = 0
                 then Some (goertzel_coefficient, Some state, [], SWITCH_TRUE)
                 else
                   (let samples_per_frame = uint (datalen frame) div 2 in
                    if samples_per_frame \<le> 0
                    then Some (goertzel_coefficient, Some state, [], SWITCH_TRUE)
                    else
                      (let now_ms = elapsed_ms micro_time_now state in
                       if max_detect_time_ms state > 0 \<and> now_ms > max_detect_time_ms state then
                         (let state = state\<lparr>running := 0\<rparr>
                          in Some (goertzel_coefficient, Some state,
                                   set_ringback_result state, SWITCH_FALSE))
                       else if nat samples_per_frame > length buffer then None
                       else
                         (let goertzel_coefficient = init_goertzel goertzel_coefficient;
                              state = state\<lparr>goertzel_coef := goertzel_coefficient\<rparr>;
                              samples = take (nat samples_per_frame) buffer;
                              energy = calc_frame_energy samples samples_per_frame;
                              (state, goertzel_energy) = goertzel_loop state samples;
                              has_tone = tone_decision energy goertzel_energy state;
                              (state, calls, ret) = segment_update state has_tone now_ms
                          in Some (goertzel_coefficient, Some state, calls, ret))))))"

text \<open>
  \<^verbatim>\<open>start_ringback\<close>: the state of a new session. \<open>micro_time_now\<close> is the clock at
  the start; \<open>maxdetecttime\<close> is \<^verbatim>\<open>atoi\<close> of the channel variable
  \<^verbatim>\<open>ringback_maxdetecttime\<close> and \<open>autohangup_var\<close> is \<^verbatim>\<open>switch_true\<close> of
  \<^verbatim>\<open>ringback_autohangup\<close> (\<open>None\<close> when the variable is not set). The creation of the
  media bug is taken to succeed. The product \<^verbatim>\<open>atoi(var) * 1000\<close> is formed in \<^verbatim>\<open>int\<close>
  and stored in a \<^verbatim>\<open>uint32_t\<close>; the model takes it modulo \<open>2\<^sup>3\<^sup>2\<close> and does not
  model the signed overflow of values above 2147483.
\<close>

definition start_ringback :: "int \<Rightarrow> int option \<Rightarrow> bool option \<Rightarrow> ringback_state" where
  "start_ringback micro_time_now maxdetecttime autohangup_var =
     \<lparr>running = 1, sample_count = 0, goertzel_s1 = 0, goertzel_s2 = 0, goertzel_coef = 0,
      in_tone = 0, tone_start_ms = 0, silence_start_ms = 0, last_tone_duration_ms = 0,
      last_silence_duration_ms = 0, tone_type = 0, consecutive_busy = 0,
      consecutive_ringback = 0,
      start_time_ms = word_of_int (c_div micro_time_now 1000),
      max_detect_time_ms =
        (case maxdetecttime of
           Some n \<Rightarrow> if n > 0 then word_of_int (n * 1000) else 60000
         | None \<Rightarrow> 60000),
      autohangup = 1,
      hangup_on_busy = (case autohangup_var of Some b \<Rightarrow> (if b then 1 else 0) | None \<Rightarrow> 1),
      hangup_on_ringback = 0\<rparr>"

text \<open>
  A sequence of deliveries: the host calls the callback once per frame, in order, each
  with its clock reading. The requests to the host are collected. The callback is called
  for every frame of the list, whatever it returned before.
\<close>

fun deliver ::
  "real \<times> ringback_state option \<Rightarrow> (switch_frame \<times> int) list \<Rightarrow>
   (real \<times> ringback_state option \<times> host_call list) option" where
  "deliver (g, user_data) [] = Some (g, user_data, [])"
| "deliver (g, user_data) ((frame, micro_time_now) # rest) =
     (case ringback_media_callback g user_data frame micro_time_now of
        None \<Rightarrow> None
      | Some (g', user_data', calls, ret) \<Rightarrow>
          (case deliver (g', user_data') rest of
             None \<Rightarrow> None
           | Some (g'', user_data'', calls') \<Rightarrow> Some (g'', user_data'', calls @ calls')))"

section \<open>The specification's formulas\<close>

text \<open>
  The tone-present decision as the specification words it: broadband energy above the
  threshold and narrow-band energy above its own threshold (1000 in the source).
\<close>

definition spec_tone_present :: "real \<Rightarrow> real \<Rightarrow> bool" where
  "spec_tone_present energy goertzel_energy =
     (energy > real_of_int ENERGY_THRESHOLD \<and> goertzel_energy > 1000)"

text \<open>
  The coefficient as the specification words it: \<open>2 cos (2 \<pi> k / N)\<close> with \<open>k\<close> the
  rounded bin \<open>round (N f\<^sub>t\<^sub>a\<^sub>r\<^sub>g\<^sub>e\<^sub>t / f\<^sub>s\<^sub>a\<^sub>m\<^sub>p\<^sub>l\<^sub>e)\<close>.
\<close>

definition spec_goertzel_coefficient :: real where
  "spec_goertzel_coefficient =
     2 * cos (2 * pi * real_of_int (round (real_of_int GOERTZEL_N * TARGET_FREQ
                                              / real_of_int SAMPLE_RATE))
              / real_of_int GOERTZEL_N)"

section \<open>Example frames\<close>

text \<open>
  Well-formed frames used where a theorem is evaluated on a concrete input: 20 ms of a
  loud signal (160 samples of value 1000, RMS energy 1000), 20 ms of silence, and a
  click: a full Goertzel window of 205 samples, all zero but the last two, 6000 and
  -6000.
\<close>

abbreviation loud_frame :: switch_frame where
  "loud_frame \<equiv> \<lparr>data = Some (replicate 160 1000), datalen = 320\<rparr>"

abbreviation quiet_frame :: switch_frame where
  "quiet_frame \<equiv> \<lparr>data = Some (replicate 160 0), datalen = 320\<rparr>"

abbreviation click_frame :: switch_frame where
  "click_frame \<equiv> \<lparr>data = Some (replicate 203 0 @ [6000, - 6000]), datalen = 410\<rparr>"

section \<open>Properties of the templates\<close>

lemmas timing_defs =
  BUSY_ON_MIN_def BUSY_ON_MAX_def BUSY_OFF_MIN_def BUSY_OFF_MAX_def
  RINGBACK_ON_MIN_def RINGBACK_ON_MAX_def RINGBACK_OFF_MIN_def RINGBACK_OFF_MAX_def
  CONGESTION_ON_MIN_def CONGESTION_ON_MAX_def CONGESTION_OFF_MIN_def CONGESTION_OFF_MAX_def

lemma on_ranges_disjoint:
  fixes on_ms :: uint32_t
  shows "\<not> (on_ms \<le> 450 \<and> 900 \<le> on_ms)"
    and "\<not> (on_ms \<le> 450 \<and> 600 \<le> on_ms)"
    and "\<not> (on_ms \<le> 800 \<and> 900 \<le> on_ms)"
  by (simp_all add: word_le_nat_alt)

text \<open>
  C9. The busy template is exactly the two-sided closed-interval test: it holds if and
  only if \<open>on_ms\<close> lies in [250, 450] and \<open>off_ms\<close> lies in [250, 450] (so it
  holds on the whole rectangle), and it fails for \<open>on_ms = 200\<close> and for
  \<open>on_ms = 500\<close> whatever \<open>off_ms\<close> is. The predicate is a function of its
  two arguments alone.
\<close>

theorem match_busy_pattern_interval:
  "(match_busy_pattern on_ms off_ms \<longleftrightarrow>
      250 \<le> unat on_ms \<and> unat on_ms \<le> 450 \<and> 250 \<le> unat off_ms \<and> unat off_ms \<le> 450)
   \<and> \<not> match_busy_pattern 200 off_ms
   \<and> \<not> match_busy_pattern 500 off_ms"
  by (simp add: match_busy_pattern_def timing_defs word_le_nat_alt)

text \<open>
  C10. No pair of durations matches two templates: the busy, ringback and congestion
  predicates are pairwise exclusive, because their on-duration ranges [250, 450],
  [900, 1200] and [600, 800] do not meet.
\<close>

theorem templates_exclusive:
  "\<not> (match_busy_pattern on_ms off_ms \<and> match_ringback_pattern on_ms off_ms) \<and>
   \<not> (match_busy_pattern on_ms off_ms \<and> match_congestion_pattern on_ms off_ms) \<and>
   \<not> (match_ringback_pattern on_ms off_ms \<and> match_congestion_pattern on_ms off_ms)"
  using on_ranges_disjoint [of on_ms]
  by (auto simp add: match_busy_pattern_def match_ringback_pattern_def
      match_congestion_pattern_def timing_defs)

section \<open>Auxiliary facts about the callback\<close>

text \<open>
  With 0 as off-duration neither the busy nor the ringback predicate can hold, since
  their off-ranges start at 250 and 3000. The update on a falling edge therefore always
  takes the last branch.
\<close>

lemma match_off_zero:
  "\<not> match_busy_pattern on_ms 0" "\<not> match_ringback_pattern on_ms 0"
  by (simp_all add: match_busy_pattern_def match_ringback_pattern_def timing_defs)

lemma segment_update_eq:
  "segment_update state has_tone now_ms =
     (if has_tone then
        (if in_tone state = 0 then
           state\<lparr>in_tone := 1,
                 last_silence_duration_ms :=
                   (if silence_start_ms state > 0 then now_ms - silence_start_ms state
                    else last_silence_duration_ms state),
                 tone_start_ms := now_ms\<rparr>
         else state)
      else
        (if in_tone state \<noteq> 0 then
           state\<lparr>in_tone := 0, last_tone_duration_ms := now_ms - tone_start_ms state,
                 silence_start_ms := now_ms, consecutive_busy := 0, consecutive_ringback := 0\<rparr>
         else if silence_start_ms state = 0 then state\<lparr>silence_start_ms := now_ms\<rparr>
         else state),
      [], SWITCH_TRUE)"
  by (simp add: segment_update_def match_off_zero Let_def)

text \<open>The filter loop touches only the two filter values and the sample counter.\<close>

lemma goertzel_loop_preserves:
  "running (fst (goertzel_loop state xs)) = running state"
  "goertzel_coef (fst (goertzel_loop state xs)) = goertzel_coef state"
  "in_tone (fst (goertzel_loop state xs)) = in_tone state"
  "tone_start_ms (fst (goertzel_loop state xs)) = tone_start_ms state"
  "silence_start_ms (fst (goertzel_loop state xs)) = silence_start_ms state"
  "last_tone_duration_ms (fst (goertzel_loop state xs)) = last_tone_duration_ms state"
  "last_silence_duration_ms (fst (goertzel_loop state xs)) = last_silence_duration_ms state"
  "tone_type (fst (goertzel_loop state xs)) = tone_type state"
  "consecutive_busy (fst (goertzel_loop state xs)) = consecutive_busy state"
  "consecutive_ringback (fst (goertzel_loop state xs)) = consecutive_ringback state"
  "start_time_ms (fst (goertzel_loop state xs)) = start_time_ms state"
  "max_detect_time_ms (fst (goertzel_loop state xs)) = max_detect_time_ms state"
  "autohangup (fst (goertzel_loop state xs)) = autohangup state"
  "hangup_on_busy (fst (goertzel_loop state xs)) = hangup_on_busy state"
  "hangup_on_ringback (fst (goertzel_loop state xs)) = hangup_on_ringback state"
  by (induction xs arbitrary: state; simp add: Let_def goertzel_process_sample_def)+

text \<open>The energy gate without the square root, and the net effect of lines 192 to 200.\<close>

lemma sqrt_gt_500: "500 < sqrt x \<longleftrightarrow> 250000 < x"
proof -
  have "sqrt 250000 = 500" by (rule real_sqrt_unique) simp_all
  then show ?thesis by (metis real_sqrt_less_iff)
qed

lemma tone_decision_eq:
  "tone_decision energy goertzel_energy state \<longleftrightarrow> energy > real_of_int ENERGY_THRESHOLD"
  by (simp add: tone_decision_def Let_def split: prod.splits)

text \<open>The callback, path by path, and as one case distinction.\<close>

lemma frame_nonempty:
  fixes n :: uint32_t
  assumes "2 \<le> n"
  shows "n \<noteq> 0" and "0 < uint n div 2"
proof -
  from assms have "2 \<le> uint n" by (simp add: word_le_def)
  then show "0 < uint n div 2" by simp
  from assms show "n \<noteq> 0" by auto
qed

lemma callback_processed:
  assumes "running state \<noteq> 0" and "data frame = Some buffer" and "2 \<le> datalen frame"
    and "\<not> (0 < max_detect_time_ms state \<and> max_detect_time_ms state < elapsed_ms t state)"
    and "nat (uint (datalen frame) div 2) \<le> length buffer"
  shows "ringback_media_callback g (Some state) frame t =
     (let samples = take (nat (uint (datalen frame) div 2)) buffer;
          filtered = fst (goertzel_loop (state\<lparr>goertzel_coef := init_goertzel g\<rparr>) samples);
          has_tone = (real_of_int ENERGY_THRESHOLD
                        < calc_frame_energy samples (uint (datalen frame) div 2))
      in Some (init_goertzel g,
               Some (fst (segment_update filtered has_tone (elapsed_ms t state))), [], SWITCH_TRUE))"
  using assms frame_nonempty [of "datalen frame"]
  by (simp add: ringback_media_callback_def Let_def tone_decision_eq segment_update_eq
      split: prod.splits)

lemma callback_stopped:
  "running state = 0 \<Longrightarrow>
   ringback_media_callback g (Some state) frame t = Some (g, Some state, [], SWITCH_TRUE)"
  by (simp add: ringback_media_callback_def)

lemma deliver_stopped:
  "running state = 0 \<Longrightarrow> deliver (g, Some state) ds = Some (g, Some state, [])"
  by (induction ds) (auto simp add: callback_stopped)

lemma callback_timeout:
  assumes "running state \<noteq> 0" and "data frame = Some buffer" and "2 \<le> datalen frame"
    and "0 < max_detect_time_ms state" and "max_detect_time_ms state < elapsed_ms t state"
  shows "ringback_media_callback g (Some state) frame t =
           Some (g, Some (state\<lparr>running := 0\<rparr>), set_ringback_result state, SWITCH_FALSE)"
  using assms frame_nonempty [of "datalen frame"]
  by (simp add: ringback_media_callback_def Let_def set_ringback_result_def)

lemma frame_empty_iff:
  fixes n :: uint32_t
  shows "(n = 0 \<or> uint n div 2 \<le> 0) \<longleftrightarrow> n < 2"
proof -
  have "uint n div 2 \<le> 0 \<longleftrightarrow> uint n < 2" using uint_ge_0 [of n] by arith
  moreover have "n < 2 \<longleftrightarrow> uint n < 2" by (simp add: word_less_def)
  moreover have "n = 0 \<Longrightarrow> uint n < 2" by simp
  ultimately show ?thesis by blast
qed

lemma callback_eq:
  "ringback_media_callback g (Some state) frame t =
     (if running state = 0 \<or> data frame = None \<or> datalen frame < 2
      then Some (g, Some state, [], SWITCH_TRUE)
      else if 0 < max_detect_time_ms state \<and> max_detect_time_ms state < elapsed_ms t state
      then Some (g, Some (state\<lparr>running := 0\<rparr>), set_ringback_result state, SWITCH_FALSE)
      else if length (the (data frame)) < nat (uint (datalen frame) div 2) then None
      else
        (let samples = take (nat (uint (datalen frame) div 2)) (the (data frame));
             filtered = fst (goertzel_loop (state\<lparr>goertzel_coef := init_goertzel g\<rparr>) samples);
             has_tone = (real_of_int ENERGY_THRESHOLD
                           < calc_frame_energy samples (uint (datalen frame) div 2))
         in Some (init_goertzel g,
                  Some (fst (segment_update filtered has_tone (elapsed_ms t state))),
                  [], SWITCH_TRUE)))"
proof (cases "running state = 0 \<or> data frame = None \<or> datalen frame < 2")
  case True
  then show ?thesis
    using frame_empty_iff [of "datalen frame"]
    by (auto simp add: ringback_media_callback_def Let_def split: option.splits)
next
  case False
  then obtain buffer where b: "data frame = Some buffer" by auto
  from False have r: "running state \<noteq> 0" and n: "2 \<le> datalen frame" by auto
  show ?thesis
  proof (cases "0 < max_detect_time_ms state \<and> max_detect_time_ms state < elapsed_ms t state")
    case True
    with False callback_timeout [OF r b n, of t g] show ?thesis by simp
  next
    case nt: False
    show ?thesis
    proof (cases "length buffer < nat (uint (datalen frame) div 2)")
      case True
      with False nt b frame_nonempty [OF n] show ?thesis
        by (simp add: ringback_media_callback_def Let_def set_ringback_result_def)
    next
      case fits: False
      then have "nat (uint (datalen frame) div 2) \<le> length buffer" by simp
      from callback_processed [OF r b n nt this, of g] False nt fits b show ?thesis
        by (simp add: Let_def)
    qed
  qed
qed

text \<open>Energy and filter output of the example frames.\<close>

lemma energy_loop_replicate:
  "energy_loop (replicate k x) acc = acc + real k * (real_of_int (sint x) * real_of_int (sint x))"
  by (induction k arbitrary: acc) (simp_all add: algebra_simps)

lemma loud_energy: "real_of_int ENERGY_THRESHOLD < calc_frame_energy (replicate 160 1000) 160"
  by (simp add: calc_frame_energy_def energy_loop_replicate ENERGY_THRESHOLD_def sqrt_gt_500)

lemma quiet_energy: "\<not> real_of_int ENERGY_THRESHOLD < calc_frame_energy (replicate 160 0) 160"
  by (simp add: calc_frame_energy_def energy_loop_replicate ENERGY_THRESHOLD_def sqrt_gt_500)

lemma energy_loop_append: "energy_loop (xs @ ys) acc = energy_loop ys (energy_loop xs acc)"
  by (induction xs arbitrary: acc) simp_all

lemma goertzel_loop_leading_zeros:
  assumes "goertzel_s1 state = 0" and "goertzel_s2 state = 0"
    and "sample_count state + int k < GOERTZEL_N"
  shows "goertzel_loop state (replicate k 0 @ xs) =
           goertzel_loop (state\<lparr>sample_count := sample_count state + int k\<rparr>) xs"
  using assms
proof (induction k arbitrary: state)
  case 0
  then show ?case by simp
next
  case (Suc k)
  let ?s = "goertzel_process_sample state 0"
  have s: "?s = state\<lparr>sample_count := sample_count state + 1\<rparr>"
    using Suc.prems by (simp add: goertzel_process_sample_def)
  have "goertzel_loop state (replicate (Suc k) 0 @ xs) = goertzel_loop ?s (replicate k 0 @ xs)"
    using Suc.prems by (simp add: Let_def s)
  also have "\<dots> = goertzel_loop (?s\<lparr>sample_count := sample_count ?s + int k\<rparr>) xs"
    using Suc.prems by (intro Suc.IH) (simp_all add: s)
  finally show ?case by (simp add: s add.commute add.left_commute)
qed

lemma coefficient_above_one: "1 < init_goertzel 0"
proof -
  have "cos (pi / 3) < cos (9 * pi / 80)"
    by (rule cos_monotone_0_pi) (use pi_gt_zero in \<open>simp_all add: field_simps\<close>)
  then show ?thesis
    by (simp add: init_goertzel_def GOERTZEL_N_def TARGET_FREQ_def SAMPLE_RATE_def Let_def cos_60)
qed

lemma click_window:
  "goertzel_loop ((start_ringback 5000000 None None)\<lparr>goertzel_coef := init_goertzel 0\<rparr>)
     (replicate 203 0 @ [6000, - 6000])
   = ((start_ringback 5000000 None None)\<lparr>goertzel_coef := init_goertzel 0\<rparr>,
      36000000 * (2 - init_goertzel 0) / 42025)"
proof -
  let ?s = "(start_ringback 5000000 None None)\<lparr>goertzel_coef := init_goertzel 0\<rparr>"
  have "goertzel_loop ?s (replicate 203 0 @ [6000, - 6000])
          = goertzel_loop (?s\<lparr>sample_count := sample_count ?s + int 203\<rparr>) [6000, - 6000]"
    by (rule goertzel_loop_leading_zeros) (simp_all add: start_ringback_def GOERTZEL_N_def)
  also have "\<dots> = (?s, 36000000 * (2 - init_goertzel 0) / 42025)"
    by (simp add: start_ringback_def Let_def goertzel_process_sample_def
        goertzel_get_energy_def GOERTZEL_N_def algebra_simps)
  finally show ?thesis .
qed

lemma click_energy:
  "calc_frame_energy (replicate 203 0 @ [6000, - 6000]) 205 = sqrt (72000000 / 205)"
  by (simp add: calc_frame_energy_def energy_loop_append energy_loop_replicate)

text \<open>Rewrite rules that evaluate the callback on the example frames.\<close>

lemmas run_simps =
  callback_eq start_ringback_def elapsed_ms_def c_div_def Let_def
  loud_energy quiet_energy segment_update_def goertzel_loop_preserves
  match_busy_pattern_def match_ringback_pattern_def match_congestion_pattern_def timing_defs

text \<open>
  No delivery changes the recorded tone type or asks for a hang-up, whatever the frames
  and the clock readings are.
\<close>

lemma callback_keeps_verdict:
  assumes "ringback_media_callback g (Some state) frame t = Some (g', u, calls, ret)"
  shows "\<exists>state'. u = Some state' \<and> tone_type state' = tone_type state \<and>
           (\<forall>c. Hangup c \<notin> set calls)"
  using assms
  by (auto simp add: callback_eq Let_def segment_update_eq
      goertzel_loop_preserves set_ringback_result_def split: if_splits)

lemma deliver_keeps_verdict:
  "deliver (g, Some state) ds = Some (g', Some state', calls) \<Longrightarrow>
   tone_type state' = tone_type state \<and> (\<forall>c. Hangup c \<notin> set calls)"
proof (induction ds arbitrary: g state calls)
  case Nil
  then show ?case by simp
next
  case (Cons d ds)
  obtain frame t where d: "d = (frame, t)" by (cases d)
  from Cons.prems d obtain g1 u1 calls1 ret1 calls2 where
    step: "ringback_media_callback g (Some state) frame t = Some (g1, u1, calls1, ret1)" and
    rest: "deliver (g1, u1) ds = Some (g', Some state', calls2)" and
    calls: "calls = calls1 @ calls2"
    by (auto split: option.splits)
  from callback_keeps_verdict [OF step] obtain state1 where
    u1: "u1 = Some state1" and keep: "tone_type state1 = tone_type state"
      "\<forall>c. Hangup c \<notin> set calls1"
    by blast
  from keep Cons.IH [OF rest [unfolded u1]] calls
  show ?case by auto
qed

section \<open>Stopped sessions and the timeout\<close>

text \<open>
  C7. Once the running flag is cleared, a delivery is a no-op: the callback returns
  \<open>SWITCH_TRUE\<close>, the state and the cached coefficient are unchanged and nothing is
  asked of the host (no variable is set, no hang-up is requested); the same holds for
  any sequence of further deliveries.
\<close>

theorem stopped_session_is_noop:
  assumes "running state = 0"
  shows "ringback_media_callback g (Some state) frame t = Some (g, Some state, [], SWITCH_TRUE)
         \<and> deliver (g, Some state) ds = Some (g, Some state, [])"
  using assms by (simp add: callback_stopped deliver_stopped)

theorem stopped_session_is_noop_witness:
  "running ((start_ringback 5000000 None None)\<lparr>running := 0\<rparr>) = 0 \<and>
   ringback_media_callback 0 (Some ((start_ringback 5000000 None None)\<lparr>running := 0\<rparr>))
     loud_frame 5020000
     = Some (0, Some ((start_ringback 5000000 None None)\<lparr>running := 0\<rparr>), [], SWITCH_TRUE) \<and>
   deliver (0, Some ((start_ringback 5000000 None None)\<lparr>running := 0\<rparr>))
     [(loud_frame, 5020000), (quiet_frame, 5040000)]
     = Some (0, Some ((start_ringback 5000000 None None)\<lparr>running := 0\<rparr>), [])"
proof -
  have h: "running ((start_ringback 5000000 None None)\<lparr>running := 0\<rparr>) = 0" by simp
  from h stopped_session_is_noop [OF h, of 0 loud_frame 5020000
      "[(loud_frame, 5020000), (quiet_frame, 5040000)]"]
  show ?thesis by (simp del: deliver.simps)
qed

text \<open>
  C6, as the claim states it, fails on an empty frame: the callback returns before the
  timeout test, so a running session whose time is up stays running.
\<close>

theorem timeout_skipped_on_empty_frame:
  "running (start_ringback 5000000 None None) \<noteq> 0 \<and>
   0 < max_detect_time_ms (start_ringback 5000000 None None) \<and>
   max_detect_time_ms (start_ringback 5000000 None None)
     < elapsed_ms 65020000 (start_ringback 5000000 None None) \<and>
   ringback_media_callback 0 (Some (start_ringback 5000000 None None))
     \<lparr>data = Some [], datalen = 0\<rparr> 65020000
     = Some (0, Some (start_ringback 5000000 None None), [], SWITCH_TRUE)"
  by (simp add: run_simps)

text \<open>
  C6, amended. On the delivery of a non-empty frame (a buffer and at least two bytes) to
  a running session with a positive maximum detection time that the elapsed time
  exceeds, the running flag is cleared, the callback returns \<open>SWITCH_FALSE\<close> and
  \<^verbatim>\<open>ringback_finish_cause\<close> is written once: "timeout" unless a tone type was recorded
  before. Every later delivery changes nothing, so over the whole run the three
  variables are written exactly once.
\<close>

theorem timeout_on_nonempty_frame:
  assumes "running state \<noteq> 0" and "data frame = Some buffer" and "2 \<le> datalen frame"
    and "0 < max_detect_time_ms state" and "max_detect_time_ms state < elapsed_ms t state"
  shows "ringback_media_callback g (Some state) frame t
           = Some (g, Some (state\<lparr>running := 0\<rparr>), set_ringback_result state, SWITCH_FALSE)
         \<and> channel_variable ''ringback_finish_cause'' (set_ringback_result state)
           = Some (if tone_type state = RINGBACK_TONE_BUSY then ''busy''
                   else if tone_type state = RINGBACK_TONE_RINGBACK then ''ringback''
                   else ''timeout'')
         \<and> deliver (g, Some state) ((frame, t) # ds)
           = Some (g, Some (state\<lparr>running := 0\<rparr>), set_ringback_result state)"
  using callback_timeout [OF assms, of g] deliver_stopped [of "state\<lparr>running := 0\<rparr>" g ds]
  by (simp add: set_ringback_result_def)

theorem timeout_on_nonempty_frame_witness:
  "ringback_media_callback 0 (Some (start_ringback 5000000 None None)) quiet_frame 65020000
     = Some (0, Some ((start_ringback 5000000 None None)\<lparr>running := 0\<rparr>),
             [Set_variable ''ringback_finish_cause'' ''timeout'',
              Set_variable ''ringback_tone'' ''unknown'',
              Set_variable ''ringback_result'' ''unknown''], SWITCH_FALSE)
   \<and> deliver (0, Some (start_ringback 5000000 None None))
        [(quiet_frame, 65020000), (loud_frame, 65040000), (quiet_frame, 65060000)]
     = Some (0, Some ((start_ringback 5000000 None None)\<lparr>running := 0\<rparr>),
             [Set_variable ''ringback_finish_cause'' ''timeout'',
              Set_variable ''ringback_tone'' ''unknown'',
              Set_variable ''ringback_result'' ''unknown''])"
proof -
  let ?s = "start_ringback 5000000 None None"
  have h: "running ?s \<noteq> 0" "data quiet_frame = Some (replicate 160 0)"
    "2 \<le> datalen quiet_frame"
    "0 < max_detect_time_ms ?s" "max_detect_time_ms ?s < elapsed_ms 65020000 ?s"
    by (simp_all add: start_ringback_def elapsed_ms_def c_div_def)
  have r: "set_ringback_result ?s =
      [Set_variable ''ringback_finish_cause'' ''timeout'',
       Set_variable ''ringback_tone'' ''unknown'',
       Set_variable ''ringback_result'' ''unknown'']"
    by (simp add: set_ringback_result_def start_ringback_def RINGBACK_TONE_BUSY_def
        RINGBACK_TONE_RINGBACK_def)
  from timeout_on_nonempty_frame [OF h, of 0 "[(loud_frame, 65040000), (quiet_frame, 65060000)]"] r
  show ?thesis by (simp del: deliver.simps)
qed

section \<open>The Goertzel coefficient\<close>

lemma goertzel_k_value:
  "real_of_int GOERTZEL_N * TARGET_FREQ / real_of_int SAMPLE_RATE = 369 / 32"
  by (simp add: GOERTZEL_N_def TARGET_FREQ_def SAMPLE_RATE_def)

lemma init_goertzel_zero: "init_goertzel 0 = 2 * cos (9 * pi / 80)"
  by (simp add: init_goertzel_def GOERTZEL_N_def TARGET_FREQ_def SAMPLE_RATE_def Let_def)

lemma round_k: "round (369 / 32 :: real) = 12"
  by (simp add: round_def) 

lemma spec_coefficient_value: "spec_goertzel_coefficient = 2 * cos (24 * pi / 205)"
  unfolding spec_goertzel_coefficient_def goertzel_k_value round_k
  by (simp add: GOERTZEL_N_def)

text \<open>
  C8, as the claim states it, fails: the source does not round the bin. The coefficient
  that \<^verbatim>\<open>init_goertzel\<close> stores differs from \<open>2 cos (2 \<pi> k / N)\<close> with
  \<open>k = round (N f\<^sub>t\<^sub>a\<^sub>r\<^sub>g\<^sub>e\<^sub>t / f\<^sub>s\<^sub>a\<^sub>m\<^sub>p\<^sub>l\<^sub>e) = 12\<close>.
\<close>

theorem coefficient_is_not_rounded_bin: "init_goertzel 0 \<noteq> spec_goertzel_coefficient"
proof -
  have "cos (24 * pi / 205) < cos (9 * pi / 80)"
  proof (rule cos_monotone_0_pi)
    show "0 \<le> 9 * pi / 80" by simp
    show "9 * pi / 80 < 24 * pi / 205" using pi_gt_zero by (simp add: field_simps)
    show "24 * pi / 205 \<le> pi" using pi_gt_zero by (simp add: field_simps)
  qed
  then show ?thesis by (simp add: init_goertzel_zero spec_coefficient_value)
qed

lemma init_goertzel_nonzero: "init_goertzel 0 \<noteq> 0"
proof -
  have "0 < cos (9 * pi / 80)"
    by (rule cos_gt_zero_pi) (use pi_gt_zero in \<open>simp_all add: field_simps\<close>)
  then show ?thesis by (simp add: init_goertzel_zero)
qed

lemma callback_uses_cached_coefficient:
  assumes "running state \<noteq> 0" and "data frame = Some buffer" and "2 \<le> datalen frame"
    and "\<not> (0 < max_detect_time_ms state \<and> max_detect_time_ms state < elapsed_ms t state)"
    and "nat (uint (datalen frame) div 2) \<le> length buffer"
  shows "\<exists>state'. ringback_media_callback g (Some state) frame t
                     = Some (init_goertzel g, Some state', [], SWITCH_TRUE) \<and>
                   goertzel_coef state' = init_goertzel g"
  using callback_processed [OF assms, of g]
  by (simp add: Let_def segment_update_eq goertzel_loop_preserves)

text \<open>
  C8, amended. The coefficient is \<open>2 cos (2 \<pi> k / N)\<close> with the bin
  \<open>k = N f\<^sub>t\<^sub>a\<^sub>r\<^sub>g\<^sub>e\<^sub>t / f\<^sub>s\<^sub>a\<^sub>m\<^sub>p\<^sub>l\<^sub>e = 11.53125\<close> used as it is, not rounded, for
  \<open>N = 205\<close>, 450 Hz and 8000 Hz; that is \<open>2 cos (2 \<pi> 450 / 8000)\<close>. It is computed
  when the cached global is 0 and kept afterwards.
\<close>

theorem coefficient_of_exact_frequency:
  "init_goertzel c =
     (if c = 0 then 2 * cos (2 * pi * (369 / 32) / 205) else c)
   \<and> real_of_int GOERTZEL_N * TARGET_FREQ / real_of_int SAMPLE_RATE = 369 / 32
   \<and> init_goertzel 0 = 2 * cos (2 * pi * 450 / 8000)
   \<and> init_goertzel (init_goertzel 0) = init_goertzel 0"
  using init_goertzel_nonzero
  by (simp add: init_goertzel_def GOERTZEL_N_def TARGET_FREQ_def SAMPLE_RATE_def Let_def)

section \<open>The tone-present decision\<close>

lemma silence_energy: "calc_frame_energy (replicate k 0) (int k) = 0"
  by (simp add: calc_frame_energy_def energy_loop_replicate)

text \<open>
  C1, as the claim states it, fails. A new session receives the click frame, which
  fills one Goertzel window exactly. The frame energy is \<open>sqrt (72000000 / 205)\<close>, about
  593, above the threshold 500. The Goertzel energy that the loop reads at the end of the
  window is \<open>36000000 (2 - c) / 42025\<close> for the coefficient \<open>c\<close>, which is below
  857 because \<open>c > 1\<close>, so it does not exceed 1000. The combined gate of the
  specification is false, the decision of the source is true and the callback enters
  the tone state.
\<close>

theorem tone_present_counterexample:
  "real_of_int ENERGY_THRESHOLD < calc_frame_energy (replicate 203 0 @ [6000, - 6000]) 205 \<and>
   snd (goertzel_loop ((start_ringback 5000000 None None)\<lparr>goertzel_coef := init_goertzel 0\<rparr>)
          (replicate 203 0 @ [6000, - 6000]))
     = 36000000 * (2 - init_goertzel 0) / 42025 \<and>
   36000000 * (2 - init_goertzel 0) / 42025 < 1000 \<and>
   \<not> spec_tone_present (calc_frame_energy (replicate 203 0 @ [6000, - 6000]) 205)
        (snd (goertzel_loop
               ((start_ringback 5000000 None None)\<lparr>goertzel_coef := init_goertzel 0\<rparr>)
               (replicate 203 0 @ [6000, - 6000]))) \<and>
   tone_decision (calc_frame_energy (replicate 203 0 @ [6000, - 6000]) 205)
     (snd (goertzel_loop
            ((start_ringback 5000000 None None)\<lparr>goertzel_coef := init_goertzel 0\<rparr>)
            (replicate 203 0 @ [6000, - 6000])))
     (fst (goertzel_loop
            ((start_ringback 5000000 None None)\<lparr>goertzel_coef := init_goertzel 0\<rparr>)
            (replicate 203 0 @ [6000, - 6000]))) \<and>
   (case ringback_media_callback 0 (Some (start_ringback 5000000 None None)) click_frame 5020000 of
      Some (g, Some state, calls, ret) \<Rightarrow> in_tone state = 1 \<and> tone_start_ms state = 20
    | _ \<Rightarrow> False)"
proof -
  have e: "real_of_int ENERGY_THRESHOLD
             < calc_frame_energy (replicate 203 0 @ [6000, - 6000]) 205"
    by (simp add: click_energy ENERGY_THRESHOLD_def sqrt_gt_500)
  have g: "36000000 * (2 - init_goertzel 0) / 42025 < 1000"
    using coefficient_above_one by simp
  have "case ringback_media_callback 0 (Some (start_ringback 5000000 None None))
               click_frame 5020000 of
          Some (g, Some state, calls, ret) \<Rightarrow> in_tone state = 1 \<and> tone_start_ms state = 20
        | _ \<Rightarrow> False"
    using e by (simp add: run_simps)
  with e g show ?thesis
    by (simp add: click_window spec_tone_present_def tone_decision_eq)
qed

text \<open>
  C1, amended. The tone-present decision of a frame is true if and only if the
  broadband RMS energy of the frame exceeds the energy threshold; the Goertzel energy
  does not enter it. An all-zero frame is not tone-present. For every frame that the
  callback processes (running session, buffer with at least two bytes and as many
  samples as announced, time not up), the state is in tone afterwards if and only if
  the frame energy exceeds the threshold.
\<close>

theorem tone_present_is_energy_gate:
  assumes "running state \<noteq> 0" and "data frame = Some buffer" and "2 \<le> datalen frame"
    and "\<not> (0 < max_detect_time_ms state \<and> max_detect_time_ms state < elapsed_ms t state)"
    and "nat (uint (datalen frame) div 2) \<le> length buffer"
  shows "(tone_decision energy goertzel_energy filtered
            \<longleftrightarrow> real_of_int ENERGY_THRESHOLD < energy)
       \<and> \<not> tone_decision (calc_frame_energy (replicate k 0) (int k)) goertzel_energy filtered
       \<and> (\<exists>state' calls ret.
            ringback_media_callback g (Some state) frame t
              = Some (init_goertzel g, Some state', calls, ret) \<and>
            (in_tone state' \<noteq> 0 \<longleftrightarrow>
               real_of_int ENERGY_THRESHOLD
                 < calc_frame_energy (take (nat (uint (datalen frame) div 2)) buffer)
                     (uint (datalen frame) div 2)))"
proof -
  let ?n = "uint (datalen frame) div 2"
  let ?samples = "take (nat ?n) buffer"
  let ?has_tone = "real_of_int ENERGY_THRESHOLD < calc_frame_energy ?samples ?n"
  let ?state' = "fst (segment_update
      (fst (goertzel_loop (state\<lparr>goertzel_coef := init_goertzel g\<rparr>) ?samples))
      ?has_tone (elapsed_ms t state))"
  have "ringback_media_callback g (Some state) frame t
          = Some (init_goertzel g, Some ?state', [], SWITCH_TRUE)"
    using callback_processed [OF assms, of g] unfolding Let_def .
  moreover have "in_tone ?state' \<noteq> 0 \<longleftrightarrow> ?has_tone"
    by (simp add: segment_update_eq)
  ultimately have "\<exists>state' calls ret.
      ringback_media_callback g (Some state) frame t
        = Some (init_goertzel g, Some state', calls, ret) \<and>
      (in_tone state' \<noteq> 0 \<longleftrightarrow> ?has_tone)"
    by blast
  moreover have "tone_decision energy goertzel_energy filtered
      \<longleftrightarrow> real_of_int ENERGY_THRESHOLD < energy"
    by (simp add: tone_decision_def Let_def split: prod.splits)
  moreover have "\<not> tone_decision (calc_frame_energy (replicate k 0) (int k))
      goertzel_energy filtered"
    by (simp add: tone_decision_def Let_def silence_energy ENERGY_THRESHOLD_def
        split: prod.splits)
  ultimately show ?thesis by blast
qed

theorem tone_present_is_energy_gate_witness:
  "(tone_decision 1000 0 (start_ringback 5000000 None None) \<longleftrightarrow> real_of_int ENERGY_THRESHOLD < 1000)
   \<and> \<not> tone_decision (calc_frame_energy (replicate 160 0) (int 160)) 0
          (start_ringback 5000000 None None)
   \<and> (\<exists>state' calls ret.
        ringback_media_callback 0 (Some (start_ringback 5000000 None None)) loud_frame 5020000
          = Some (init_goertzel 0, Some state', calls, ret) \<and>
        (in_tone state' \<noteq> 0 \<longleftrightarrow>
           real_of_int ENERGY_THRESHOLD < calc_frame_energy (replicate 160 1000) 160))"
proof -
  let ?s = "start_ringback 5000000 None None"
  have h: "running ?s \<noteq> 0" "data loud_frame = Some (replicate 160 1000)"
    "2 \<le> datalen loud_frame"
    "\<not> (0 < max_detect_time_ms ?s \<and> max_detect_time_ms ?s < elapsed_ms 5020000 ?s)"
    "nat (uint (datalen loud_frame) div 2) \<le> length (replicate 160 (1000 :: int16_t))"
    by (simp_all add: start_ringback_def elapsed_ms_def c_div_def)
  from tone_present_is_energy_gate [OF h, of 1000 0 ?s 160 0]
  show ?thesis by simp
qed

section \<open>Pattern matching on a falling edge\<close>

text \<open>
  C2. The source does not do what the claim says: on a falling edge the predicates are
  called with the literal 0 as off-duration. A session hears 340 ms of silence and then
  340 ms of tone; at the falling edge the measured pair is (340, 340), which the busy
  template matches, yet the busy counter stays 0 because the source tests (340, 0).
\<close>

theorem off_duration_replaced_by_zero:
  "match_busy_pattern 340 340 \<and> \<not> match_busy_pattern 340 0 \<and>
   (case deliver (0, Some (start_ringback 5000000 None None))
      [(quiet_frame, 5020000), (loud_frame, 5360000), (quiet_frame, 5700000)] of
      Some (g, Some state, calls) \<Rightarrow>
        last_tone_duration_ms state = 340 \<and> last_silence_duration_ms state = 340 \<and>
        consecutive_busy state = 0
    | _ \<Rightarrow> False)"
  by (simp add: run_simps)

text \<open>
  The same call over two cycles of 340 ms silence and 340 ms tone: both pairs match the
  busy template, the busy counter is 0 after each, and the session is still running with
  no tone type recorded and nothing asked of the host.
\<close>

lemma two_busy_cycles_do_not_fire:
  "match_busy_pattern 340 340 \<and>
   (case deliver (0, Some (start_ringback 5000000 None None))
      [(quiet_frame, 5020000), (loud_frame, 5360000), (quiet_frame, 5700000),
       (loud_frame, 6040000), (quiet_frame, 6380000)] of
      Some (g, Some state, calls) \<Rightarrow>
        last_tone_duration_ms state = 340 \<and> last_silence_duration_ms state = 340 \<and>
        running state = 1 \<and> tone_type state = 0 \<and> consecutive_busy state = 0 \<and> calls = []
    | _ \<Rightarrow> False)"
  by (simp add: run_simps)

text \<open>
  C5. The source does not do what the claim says: after 4000 ms of silence and 1000 ms
  of tone, a pair that the ringback template matches, no ringback is recorded: the tone
  type is still 0 and the ringback counter is 0 (the session is running).
\<close>

theorem ringback_cycle_is_not_recorded:
  "match_ringback_pattern 1000 4000 \<and>
   (case deliver (0, Some (start_ringback 5000000 None None))
      [(quiet_frame, 5020000), (loud_frame, 9020000), (quiet_frame, 10020000)] of
      Some (g, Some state, calls) \<Rightarrow>
        last_tone_duration_ms state = 1000 \<and> last_silence_duration_ms state = 4000 \<and>
        running state = 1 \<and> tone_type state = 0 \<and> consecutive_ringback state = 0 \<and> calls = []
    | _ \<Rightarrow> False)"
  by (simp add: run_simps)

section \<open>Consecutive busy matches\<close>



section \<open>The congestion template\<close>

text \<open>
  C3, as the claim states it, fails: after two consecutive cycles of 700 ms silence and
  700 ms tone, each a pair that the congestion template matches, the session is
  still running, no tone type is recorded and nothing was asked of the host.
\<close>

theorem two_congestion_cycles_give_no_verdict:
  "match_congestion_pattern 700 700 \<and>
   (case deliver (0, Some (start_ringback 5000000 None None))
      [(quiet_frame, 5020000), (loud_frame, 5720000), (quiet_frame, 6420000),
       (loud_frame, 7120000), (quiet_frame, 7820000)] of
      Some (g, Some state, calls) \<Rightarrow>
        last_tone_duration_ms state = 700 \<and> last_silence_duration_ms state = 700 \<and>
        running state = 1 \<and> tone_type state = 0 \<and> calls = []
    | _ \<Rightarrow> False)"
  by (simp add: run_simps)

lemma congestion_excludes_others:
  assumes "match_congestion_pattern on_ms off_ms"
  shows "\<not> match_busy_pattern on_ms x" and "\<not> match_ringback_pattern on_ms y"
  using assms on_ranges_disjoint [of on_ms]
  by (auto simp add: match_busy_pattern_def match_ringback_pattern_def
      match_congestion_pattern_def timing_defs)

text \<open>
  C3, amended. The congestion predicate holds exactly for \<open>on_ms\<close> in [600, 800] and
  \<open>off_ms\<close> in [500, 900]. The callback never consults it and has no congestion
  verdict: on a falling edge whose tone duration and preceding silence match the
  congestion template, the callback returns \<open>SWITCH_TRUE\<close>, asks nothing of the host,
  leaves the running flag and the tone type as they were and sets both counters to 0.
\<close>

theorem congestion_pair_gives_no_verdict:
  assumes "running state \<noteq> 0" and "data frame = Some buffer" and "2 \<le> datalen frame"
    and "\<not> (0 < max_detect_time_ms state \<and> max_detect_time_ms state < elapsed_ms t state)"
    and "nat (uint (datalen frame) div 2) \<le> length buffer"
    and "in_tone state \<noteq> 0"
    and "\<not> real_of_int ENERGY_THRESHOLD
            < calc_frame_energy (take (nat (uint (datalen frame) div 2)) buffer)
                (uint (datalen frame) div 2)"
    and "match_congestion_pattern (elapsed_ms t state - tone_start_ms state)
           (last_silence_duration_ms state)"
  shows "(match_congestion_pattern on_ms off_ms \<longleftrightarrow>
            600 \<le> unat on_ms \<and> unat on_ms \<le> 800 \<and> 500 \<le> unat off_ms \<and> unat off_ms \<le> 900)
       \<and> (\<exists>state'.
            ringback_media_callback g (Some state) frame t
              = Some (init_goertzel g, Some state', [], SWITCH_TRUE) \<and>
            last_tone_duration_ms state' = elapsed_ms t state - tone_start_ms state \<and>
            running state' = running state \<and> tone_type state' = tone_type state \<and>
            consecutive_busy state' = 0 \<and> consecutive_ringback state' = 0)"
proof -
  let ?n = "uint (datalen frame) div 2"
  let ?filtered = "fst (goertzel_loop (state\<lparr>goertzel_coef := init_goertzel g\<rparr>)
                         (take (nat ?n) buffer))"
  let ?now = "elapsed_ms t state"
  have edge: "in_tone ?filtered \<noteq> 0" "tone_start_ms ?filtered = tone_start_ms state"
    using assms(6) by (simp_all add: goertzel_loop_preserves)
  have other: "\<not> match_busy_pattern (?now - tone_start_ms state) 0"
    "\<not> match_ringback_pattern (?now - tone_start_ms state) 0"
    using congestion_excludes_others [OF assms(8)] by simp_all
  have seg: "segment_update ?filtered False ?now =
      (?filtered\<lparr>in_tone := 0, last_tone_duration_ms := ?now - tone_start_ms state,
                  silence_start_ms := ?now, consecutive_busy := 0, consecutive_ringback := 0\<rparr>,
       [], SWITCH_TRUE)"
    using edge other by (simp add: segment_update_def Let_def)
  have "ringback_media_callback g (Some state) frame t =
      Some (init_goertzel g, Some (fst (segment_update ?filtered False ?now)), [], SWITCH_TRUE)"
    using callback_processed [OF assms(1-5), of g] assms(7) by (simp add: Let_def)
  then have "\<exists>state'.
      ringback_media_callback g (Some state) frame t
        = Some (init_goertzel g, Some state', [], SWITCH_TRUE) \<and>
      last_tone_duration_ms state' = ?now - tone_start_ms state \<and>
      running state' = running state \<and> tone_type state' = tone_type state \<and>
      consecutive_busy state' = 0 \<and> consecutive_ringback state' = 0"
    by (simp add: seg goertzel_loop_preserves)
  moreover have "match_congestion_pattern on_ms off_ms \<longleftrightarrow>
      600 \<le> unat on_ms \<and> unat on_ms \<le> 800 \<and> 500 \<le> unat off_ms \<and> unat off_ms \<le> 900"
    by (simp add: match_congestion_pattern_def timing_defs word_le_nat_alt)
  ultimately show ?thesis by blast
qed

theorem congestion_pair_gives_no_verdict_witness:
  "(match_congestion_pattern 700 700 \<longleftrightarrow>
      600 \<le> unat (700 :: uint32_t) \<and> unat (700 :: uint32_t) \<le> 800 \<and>
      500 \<le> unat (700 :: uint32_t) \<and> unat (700 :: uint32_t) \<le> 900)
   \<and> (\<exists>state'.
        ringback_media_callback (init_goertzel 0)
          (Some ((start_ringback 5000000 None None)
             \<lparr>goertzel_coef := init_goertzel 0, in_tone := 1, tone_start_ms := 720,
              silence_start_ms := 20, last_silence_duration_ms := 700\<rparr>))
          quiet_frame 6420000
          = Some (init_goertzel (init_goertzel 0), Some state', [], SWITCH_TRUE) \<and>
        last_tone_duration_ms state' = 700 \<and>
        running state' = 1 \<and> tone_type state' = 0 \<and>
        consecutive_busy state' = 0 \<and> consecutive_ringback state' = 0)"
proof -
  let ?s = "(start_ringback 5000000 None None)
             \<lparr>goertzel_coef := init_goertzel 0, in_tone := 1, tone_start_ms := 720,
              silence_start_ms := 20, last_silence_duration_ms := 700\<rparr>"
  have now: "elapsed_ms 6420000 ?s = 1420"
    by (simp add: start_ringback_def elapsed_ms_def c_div_def)
  have h: "running ?s \<noteq> 0" "data quiet_frame = Some (replicate 160 0)"
    "2 \<le> datalen quiet_frame"
    "\<not> (0 < max_detect_time_ms ?s \<and> max_detect_time_ms ?s < elapsed_ms 6420000 ?s)"
    "nat (uint (datalen quiet_frame) div 2) \<le> length (replicate 160 (0 :: int16_t))"
    "in_tone ?s \<noteq> 0"
    "\<not> real_of_int ENERGY_THRESHOLD
        < calc_frame_energy (take (nat (uint (datalen quiet_frame) div 2)) (replicate 160 0))
            (uint (datalen quiet_frame) div 2)"
    "match_congestion_pattern (elapsed_ms 6420000 ?s - tone_start_ms ?s)
       (last_silence_duration_ms ?s)"
    unfolding now
    by (simp_all add: start_ringback_def quiet_energy
        match_congestion_pattern_def timing_defs)
  from congestion_pair_gives_no_verdict [OF h, of 700 700 "init_goertzel 0"]
  show ?thesis unfolding now by (simp add: start_ringback_def)
qed

end
